theory Spec2Isabelle
  imports Main
begin

section \<open>JavaScript values and the zod validator\<close>

text \<open>
  The object returned by the generative backend (\<open>response.object\<close>) is untyped
  JavaScript data. \<open>JUndefined\<close> is what reading a missing property yields. Numbers are
  carried as integers: every schema below rejects a number whatever its value.
\<close>

datatype jsval =
    JUndefined
  | JNull
  | JBool bool
  | JNum int
  | JStr string
  | JArr "jsval list"
  | JObj "(string \<times> jsval) list"

text \<open>Property read \<open>obj[k]\<close> on the entries of an object.\<close>

definition getprop :: "(string \<times> jsval) list \<Rightarrow> string \<Rightarrow> jsval" where
  "getprop kvs k = (case map_of kvs k of None \<Rightarrow> JUndefined | Some v \<Rightarrow> v)"

text \<open>
  The zod schema constructors that \<open>createHyperfyOutSchema\<close> uses:
  \<open>z.string()\<close>, \<open>z.null()\<close>, \<open>z.literal(item)\<close>, \<open>z.union([...])\<close>,
  \<open>z.array(...)\<close>, \<open>.nullable()\<close> and \<open>z.object({...})\<close>.
\<close>

datatype zod =
    ZString
  | ZNull
  | ZLiteral string
  | ZUnion "zod list"
  | ZArray zod
  | ZNullable zod
  | ZObject "(string \<times> zod) list"

text \<open>
  \<open>schema.parse(v)\<close> of the zod library: \<open>None\<close> is the thrown \<open>ZodError\<close>,
  \<open>Some r\<close> the parsed value. A union returns the result of its first option that
  accepts; an object schema reads each key of its shape from the input and drops the
  keys that the shape does not name.
\<close>

fun parse :: "zod \<Rightarrow> jsval \<Rightarrow> jsval option"
  and parse_union :: "zod list \<Rightarrow> jsval \<Rightarrow> jsval option"
  and parse_array :: "zod \<Rightarrow> jsval list \<Rightarrow> jsval list option"
  and parse_shape :: "(string \<times> zod) list \<Rightarrow> (string \<times> jsval) list \<Rightarrow> (string \<times> jsval) list option"
where
  "parse ZString v = (case v of JStr s \<Rightarrow> Some (JStr s) | _ \<Rightarrow> None)"
| "parse ZNull v = (if v = JNull then Some JNull else None)"
| "parse (ZLiteral s) v = (if v = JStr s then Some (JStr s) else None)"
| "parse (ZUnion options) v = parse_union options v"
| "parse (ZArray z) v = (case v of JArr xs \<Rightarrow> map_option JArr (parse_array z xs) | _ \<Rightarrow> None)"
| "parse (ZNullable z) v = (if v = JNull then Some JNull else parse z v)"
| "parse (ZObject shape) v =
     (case v of JObj kvs \<Rightarrow> map_option JObj (parse_shape shape kvs) | _ \<Rightarrow> None)"
| "parse_union [] v = None"
| "parse_union (z # zs) v = (case parse z v of Some r \<Rightarrow> Some r | None \<Rightarrow> parse_union zs v)"
| "parse_array z [] = Some []"
| "parse_array z (x # xs) =
     (case parse z x of
        None \<Rightarrow> None
      | Some r \<Rightarrow> map_option ((#) r) (parse_array z xs))"
| "parse_shape [] kvs = Some []"
| "parse_shape ((k, z) # rest) kvs =
     (case parse z (getprop kvs k) of
        None \<Rightarrow> None
      | Some r \<Rightarrow> map_option ((#) (k, r)) (parse_shape rest kvs))"


section \<open>The request, the registry and the records of a turn\<close>

text \<open>
  The request body. The model covers bodies whose \<open>roomId\<close> is a string and whose
  \<open>emotes\<close> and \<open>triggers\<close> are arrays of strings, each of them possibly left out
  (\<open>None\<close>: the property reads \<open>undefined\<close>); \<open>rest\<close> holds the other world-state
  fields, which the code only serialises.
\<close>

record body =
  body_roomId :: "string option"
  emotes :: "string list option"
  triggers :: "string list option"
  rest :: "(string \<times> jsval) list"

record request =
  agentIdOrName :: string
  body :: body

record character =
  name :: string

record runtime =
  agentId :: string
  character :: character

text \<open>
  \<open>Content\<close>: \<open>None\<close> in \<open>content_text\<close> is \<open>null\<close>; in the other fields it is
  \<open>undefined\<close>, whether the property was never set or set to \<open>undefined\<close>.
\<close>

record content =
  content_text :: "string option"
  action :: "string option"
  attachments :: "jsval list option"
  source :: "string option"
  inReplyTo :: "string option"

record memory =
  mem_id :: "string option"
  userId :: string
  roomId :: string
  mem_agentId :: string
  content :: content
  createdAt :: "nat option"

text \<open>The parsed decision \<open>hfOut\<close>, with the static type zod infers: \<open>None\<close> is \<open>null\<close>.\<close>

record hf_out =
  lookAt :: "string option"
  emote :: "string option"
  say :: "string option"
  actions :: "string list option"

text \<open>
  What the collaborators outside this repository do during one turn. The pure library
  functions are functions; of an asynchronous call the model keeps its outcome:
  \<open>composeState\<close> resolves to a state or rejects (\<open>None\<close>), \<open>generateObject\<close> rejects,
  resolves to a falsy response or to a response carrying \<open>object\<close>,
  \<open>createMemory\<close> and \<open>evaluate\<close> resolve (\<open>True\<close>) or reject.
\<close>

datatype gen_result = GenRejected | GenNone | GenObject jsval

record env =
  toLowerCase :: "string \<Rightarrow> string"
  stringToUuid :: "string \<Rightarrow> string"
  JSON_stringify :: "body \<Rightarrow> string"
  Date_now_toString :: string
  Date_now :: nat
  composeState :: "string option"
  generateObject :: gen_result
  createMemory :: bool
  evaluate :: bool

text \<open>
  The observable effects of a turn, in the order in which the handler starts them.
  \<open>Throw\<close> is an exception that leaves the handler uncaught (no response is sent);
  \<open>CreateMemory m ok\<close> and \<open>Evaluate m ok\<close> carry whether the call resolved.
  \<open>GenerateObject\<close> carries the two joined vocabularies that went into the prompt and
  the schema; the rest of the prompt text is not modelled.
\<close>

datatype exn = TypeError | Rejected

datatype reply = Send nat string | Json hf_out

datatype event =
    ComposeState memory
  | GenerateObject string string zod
  | Respond reply
  | CreateMemory memory bool
  | Evaluate memory bool
  | ProcessActions memory "memory list"
  | Throw exn

section \<open>The registry of agents\<close>

text \<open>
  \<open>this.agents\<close> is a JavaScript \<open>Map\<close>: its entries in insertion order, each key
  once. \<open>set\<close> on a key already present replaces the value in place.
\<close>

fun Map_set :: "(string \<times> 'v) list \<Rightarrow> string \<Rightarrow> 'v \<Rightarrow> (string \<times> 'v) list" where
  "Map_set [] k v = [(k, v)]"
| "Map_set ((k', v') # m) k v = (if k' = k then (k, v) # m else (k', v') # Map_set m k v)"

definition Map_delete :: "(string \<times> 'v) list \<Rightarrow> string \<Rightarrow> (string \<times> 'v) list" where
  "Map_delete m k = filter (\<lambda>kv. fst kv \<noteq> k) m"

definition registerAgent :: "(string \<times> runtime) list \<Rightarrow> runtime \<Rightarrow> (string \<times> runtime) list" where
  "registerAgent agents rt = Map_set agents (agentId rt) rt"

definition unregisterAgent :: "(string \<times> runtime) list \<Rightarrow> runtime \<Rightarrow> (string \<times> runtime) list" where
  "unregisterAgent agents rt = Map_delete agents (agentId rt)"

text \<open>
  Lines 80-90: \<open>this.agents.get(agentId)\<close>, and when that is \<open>undefined\<close> the first
  registered runtime whose lower-cased character name is the lower-cased parameter.
\<close>

definition resolve :: "env \<Rightarrow> (string \<times> runtime) list \<Rightarrow> string \<Rightarrow> runtime option" where
  "resolve e agents agentId' =
     (case map_of agents agentId' of
        Some rt \<Rightarrow> Some rt
      | None \<Rightarrow>
          find (\<lambda>a. toLowerCase e (name (character a)) = toLowerCase e agentId')
            (map snd agents))"

section \<open>Schema synthesis\<close>

text \<open>\<open>xs.join("|")\<close>; on \<open>undefined\<close> the property read \<open>.join\<close> throws a TypeError.\<close>

fun join :: "string list \<Rightarrow> string" where
  "join [] = []"
| "join [x] = x"
| "join (x # y # ys) = x @ ''|'' @ join (y # ys)"

definition vocab_join :: "string list option \<Rightarrow> exn + string" where
  "vocab_join v = (case v of None \<Rightarrow> Inl TypeError | Some xs \<Rightarrow> Inr (join xs))"

definition createHyperfyOutSchema :: "body \<Rightarrow> zod" where
  "createHyperfyOutSchema b =
     (let emotes' = (case emotes b of None \<Rightarrow> [] | Some xs \<Rightarrow> xs);
          triggers' = (case triggers b of None \<Rightarrow> [] | Some xs \<Rightarrow> xs);
          lookAtSchema =
            (if length triggers' > 0
             then ZUnion [ZUnion (map ZLiteral triggers'), ZString, ZNull]
             else ZUnion [ZString, ZNull]);
          emoteSchema =
            (if length emotes' > 0
             then ZUnion [ZUnion (map ZLiteral emotes'), ZString, ZNull]
             else ZUnion [ZString, ZNull])
      in ZObject
           [(''lookAt'', lookAtSchema),
            (''emote'', emoteSchema),
            (''say'', ZNullable ZString),
            (''actions'', ZNullable (ZArray ZString))])"

text \<open>
  The typed reading of a parsed object, and \<open>hyperfyOutSchema.parse(response.object)\<close>
  with its result read at that type. \<open>typed_total\<close> below shows that the reading never
  fails on what the schema returns.
\<close>

definition string_or_null :: "jsval \<Rightarrow> string option option" where
  "string_or_null v = (case v of JStr s \<Rightarrow> Some (Some s) | JNull \<Rightarrow> Some None | _ \<Rightarrow> None)"

fun strings :: "jsval list \<Rightarrow> string list option" where
  "strings [] = Some []"
| "strings (JStr s # vs) = map_option ((#) s) (strings vs)"
| "strings (_ # vs) = None"

definition strings_or_null :: "jsval \<Rightarrow> string list option option" where
  "strings_or_null v =
     (case v of JArr xs \<Rightarrow> map_option Some (strings xs) | JNull \<Rightarrow> Some None | _ \<Rightarrow> None)"

definition typed :: "jsval \<Rightarrow> hf_out option" where
  "typed v =
     (case v of
        JObj kvs \<Rightarrow>
          (case (string_or_null (getprop kvs ''lookAt''), string_or_null (getprop kvs ''emote''),
                 string_or_null (getprop kvs ''say''), strings_or_null (getprop kvs ''actions'')) of
             (Some l, Some e, Some s, Some a) \<Rightarrow>
               Some \<lparr>lookAt = l, emote = e, say = s, actions = a\<rparr>
           | _ \<Rightarrow> None)
      | _ \<Rightarrow> None)"

definition parse_hfOut :: "zod \<Rightarrow> jsval \<Rightarrow> hf_out option" where
  "parse_hfOut schema obj = Option.bind (parse schema obj) typed"

text \<open>A decision as the JavaScript object it is.\<close>

definition js_string_or_null :: "string option \<Rightarrow> jsval" where
  "js_string_or_null v = (case v of None \<Rightarrow> JNull | Some s \<Rightarrow> JStr s)"

definition js_of_hfOut :: "hf_out \<Rightarrow> jsval" where
  "js_of_hfOut d =
     JObj [(''lookAt'', js_string_or_null (lookAt d)),
           (''emote'', js_string_or_null (emote d)),
           (''say'', js_string_or_null (say d)),
           (''actions'', (case actions d of None \<Rightarrow> JNull | Some xs \<Rightarrow> JArr (map JStr xs)))]"


section \<open>The turn\<close>

text \<open>
  \<open>contentObj.text += s\<close> (lines 229-233): string concatenation, where a \<open>null\<close>
  left operand is converted to the string \<open>null\<close>.
\<close>

definition js_append :: "string option \<Rightarrow> string \<Rightarrow> string option" where
  "js_append t s = Some ((case t of None \<Rightarrow> ''null'' | Some x \<Rightarrow> x) @ s)"

text \<open>Lines 224-239: the text of the outgoing record.\<close>

definition compose_text :: "hf_out \<Rightarrow> string option" where
  "compose_text hfOut =
     (let t0 = say hfOut in
      if lookAt hfOut \<noteq> None \<or> emote hfOut \<noteq> None then
        let t1 = js_append t0 ''. Then I '';
            t2 = (case lookAt hfOut of
                    Some l \<Rightarrow>
                      let t = js_append t1 (''looked at '' @ l)
                      in (if emote hfOut \<noteq> None then js_append t '' and '' else t)
                  | None \<Rightarrow> t1)
        in (case emote hfOut of
              Some em \<Rightarrow> Some (''emoted '' @ em)
            | None \<Rightarrow> t2)
      else t0)"

text \<open>
  Lines 241-244: \<open>contentObj.action = hfOut.actions[0]\<close> when \<open>actions\<close> is not
  \<open>null\<close>; index 0 of an empty array reads \<open>undefined\<close>.
\<close>

definition action_tag :: "hf_out \<Rightarrow> string option" where
  "action_tag hfOut =
     (case actions hfOut of
        None \<Rightarrow> None
      | Some [] \<Rightarrow> None
      | Some (a # _) \<Rightarrow> Some a)"

definition contentObj :: "hf_out \<Rightarrow> content" where
  "contentObj hfOut =
     \<lparr>content_text = compose_text hfOut, action = action_tag hfOut,
      attachments = None, source = None, inReplyTo = None\<rparr>"

text \<open>Lines 247-251: \<open>{...userMessage, userId: runtime.agentId, content: contentObj}\<close>.\<close>

definition responseMessage :: "runtime \<Rightarrow> memory \<Rightarrow> hf_out \<Rightarrow> memory" where
  "responseMessage rt userMessage hfOut =
     userMessage\<lparr>userId := agentId rt, content := contentObj hfOut\<rparr>"

text \<open>Lines 256-266: the \<open>Memory\<close> object built once \<open>createMemory\<close> has resolved.\<close>

definition incoming :: "env \<Rightarrow> runtime \<Rightarrow> memory \<Rightarrow> memory" where
  "incoming e rt userMessage =
     \<lparr>mem_id = Some (stringToUuid e (Date_now_toString e)),
      userId = userId userMessage,
      roomId = roomId userMessage,
      mem_agentId = agentId rt,
      content = content userMessage,
      createdAt = Some (Date_now e)\<rparr>"

text \<open>JavaScript truthiness of \<open>contentObj.action\<close>: \<open>undefined\<close> and the empty string are falsy.\<close>

definition truthy :: "string option \<Rightarrow> bool" where
  "truthy v = (case v of None \<Rightarrow> False | Some s \<Rightarrow> s \<noteq> [])"

text \<open>
  Lines 222-290. The executor of the promise runs at once: it composes the record and
  starts \<open>createMemory\<close>; then \<open>res.json(hfOut)\<close> is sent; the \<open>then\<close> callbacks run
  afterwards, and only if the promise before them resolved.
\<close>

definition background :: "env \<Rightarrow> runtime \<Rightarrow> memory \<Rightarrow> hf_out \<Rightarrow> event list" where
  "background e rt userMessage hfOut =
     (let responseMessage' = responseMessage rt userMessage hfOut;
          memory' = incoming e rt userMessage
      in CreateMemory responseMessage' (createMemory e) #
         Respond (Json hfOut) #
         (if createMemory e then
            Evaluate memory' (evaluate e) #
            (if evaluate e \<and> truthy (action (content responseMessage'))
             then [ProcessActions memory' [responseMessage']]
             else [])
          else []))"

text \<open>Lines 100-119: the message that stands for the stimulus.\<close>

definition userMessage :: "env \<Rightarrow> runtime \<Rightarrow> body \<Rightarrow> memory" where
  "userMessage e rt b =
     \<lparr>mem_id = None,
      userId = stringToUuid e ''hyperfy'',
      roomId = stringToUuid e (case body_roomId b of None \<Rightarrow> ''hyperfy'' | Some r \<Rightarrow> r),
      mem_agentId = agentId rt,
      content =
        \<lparr>content_text = Some (JSON_stringify e b), action = None,
         attachments = Some [], source = Some ''hyperfy'', inReplyTo = None\<rparr>,
      createdAt = None\<rparr>"

text \<open>Lines 78-291: the handler of \<open>POST /agents/:agentIdOrName/hyperfy\<close>.\<close>

definition handler :: "env \<Rightarrow> (string \<times> runtime) list \<Rightarrow> request \<Rightarrow> event list" where
  "handler e agents req =
     (case resolve e agents (agentIdOrName req) of
        None \<Rightarrow> [Respond (Send 404 ''Agent not found'')]
      | Some rt \<Rightarrow>
          ComposeState (userMessage e rt (body req)) #
          (case composeState e of
             None \<Rightarrow> [Throw Rejected]
           | Some state \<Rightarrow>
               (case vocab_join (emotes (body req)) of
                  Inl x \<Rightarrow> [Throw x]
                | Inr emotes_joined \<Rightarrow>
                    (case vocab_join (triggers (body req)) of
                       Inl x \<Rightarrow> [Throw x]
                     | Inr triggers_joined \<Rightarrow>
                         GenerateObject emotes_joined triggers_joined
                           (createHyperfyOutSchema (body req)) #
                         (case generateObject e of
                            GenRejected \<Rightarrow> [Throw Rejected]
                          | GenNone \<Rightarrow>
                              [Respond (Send 500 ''No response from generateMessageResponse'')]
                          | GenObject obj \<Rightarrow>
                              (case parse_hfOut (createHyperfyOutSchema (body req)) obj of
                                 None \<Rightarrow>
                                   [Respond (Send 500 ''Error in LLM response, try again'')]
                               | Some hfOut \<Rightarrow>
                                   background e rt (userMessage e rt (body req)) hfOut))))))"

text \<open>Projections of the log that the properties below speak about.\<close>

fun backend_calls :: "event list \<Rightarrow> nat" where
  "backend_calls [] = 0"
| "backend_calls (GenerateObject _ _ _ # log) = Suc (backend_calls log)"
| "backend_calls (_ # log) = backend_calls log"

fun submitted :: "event list \<Rightarrow> memory list" where
  "submitted [] = []"
| "submitted (CreateMemory m ok # log) = m # submitted log"
| "submitted (_ # log) = submitted log"

fun created :: "event list \<Rightarrow> memory list" where
  "created [] = []"
| "created (CreateMemory m ok # log) = (if ok then m # created log else created log)"
| "created (_ # log) = created log"

fun dispatched :: "event list \<Rightarrow> (memory \<times> memory list) list" where
  "dispatched [] = []"
| "dispatched (ProcessActions m rs # log) = (m, rs) # dispatched log"
| "dispatched (_ # log) = dispatched log"

fun responses :: "event list \<Rightarrow> reply list" where
  "responses [] = []"
| "responses (Respond r # log) = r # responses log"
| "responses (_ # log) = responses log"

fun side_effects :: "event list \<Rightarrow> event list" where
  "side_effects [] = []"
| "side_effects (Respond r # log) = side_effects log"
| "side_effects (ev # log) = ev # side_effects log"


text \<open>
  The turn of \<open>req\<close> is served by the runtime \<open>rt\<close> and reaches line 212 with the
  validated decision \<open>hfOut\<close>: the agent resolves, \<open>composeState\<close> resolves, both
  vocabularies are there to be joined, and the backend's object passes the schema.
\<close>

definition decides :: "env \<Rightarrow> (string \<times> runtime) list \<Rightarrow> request \<Rightarrow> runtime \<Rightarrow> hf_out \<Rightarrow> bool" where
  "decides e agents req rt hfOut \<longleftrightarrow>
     resolve e agents (agentIdOrName req) = Some rt \<and>
     composeState e \<noteq> None \<and>
     emotes (body req) \<noteq> None \<and>
     triggers (body req) \<noteq> None \<and>
     (case generateObject e of
        GenObject obj \<Rightarrow> parse_hfOut (createHyperfyOutSchema (body req)) obj = Some hfOut
      | _ \<Rightarrow> False)"

section \<open>Example turns\<close>

text \<open>
  One registered agent and an environment in which every collaborator answers; the
  backend's answer and the outcome of \<open>createMemory\<close> are left open. Lower-casing is
  the ASCII one.
\<close>

definition ascii_lower :: "string \<Rightarrow> string" where
  "ascii_lower s =
     map (\<lambda>c. let n = (of_char c :: nat) in if 65 \<le> n \<and> n \<le> 90 then char_of (n + 32) else c) s"

definition example_env :: "gen_result \<Rightarrow> bool \<Rightarrow> env" where
  "example_env g ok =
     \<lparr>toLowerCase = ascii_lower, stringToUuid = (\<lambda>s. ''uuid:'' @ s),
      JSON_stringify = (\<lambda>b. ''{}''), Date_now_toString = ''1700000000000'',
      Date_now = 1700000000000, composeState = Some ''state'', generateObject = g,
      createMemory = ok, evaluate = True\<rparr>"

definition eliza :: runtime where
  "eliza = \<lparr>agentId = ''agent-1'', character = \<lparr>name = ''Eliza''\<rparr>\<rparr>"

definition scenarioA_body :: body where
  "scenarioA_body =
     \<lparr>body_roomId = Some ''hyperfy'', emotes = Some [''wave'', ''laugh''],
      triggers = Some [''player1''], rest = []\<rparr>"

definition scenarioA_request :: request where
  "scenarioA_request = \<lparr>agentIdOrName = ''agent-1'', body = scenarioA_body\<rparr>"

definition scenarioA_decision :: hf_out where
  "scenarioA_decision =
     \<lparr>lookAt = Some ''player1'', emote = Some ''wave'', say = Some ''hi'', actions = None\<rparr>"

definition scenarioA_object :: jsval where
  "scenarioA_object =
     JObj [(''lookAt'', JStr ''player1''), (''emote'', JStr ''wave''),
           (''say'', JStr ''hi''), (''actions'', JNull)]"

definition all_null_object :: jsval where
  "all_null_object =
     JObj [(''lookAt'', JNull), (''emote'', JNull), (''say'', JNull), (''actions'', JNull)]"

definition scenarioB_request :: request where
  "scenarioB_request =
     \<lparr>agentIdOrName = ''agent-1'',
      body = \<lparr>body_roomId = None, emotes = Some [], triggers = Some [], rest = []\<rparr>\<rparr>"

definition all_null :: hf_out where
  "all_null = \<lparr>lookAt = None, emote = None, say = None, actions = None\<rparr>"

definition follow_dance :: hf_out where
  "follow_dance =
     \<lparr>lookAt = None, emote = None, say = Some ''ok'', actions = Some [''follow'', ''dance'']\<rparr>"

definition follow_only :: hf_out where
  "follow_only =
     \<lparr>lookAt = None, emote = None, say = Some ''ok'', actions = Some [''follow'']\<rparr>"

definition no_actions :: hf_out where
  "no_actions = \<lparr>lookAt = None, emote = None, say = Some ''ok'', actions = Some []\<rparr>"

definition no_emotes_request :: request where
  "no_emotes_request =
     \<lparr>agentIdOrName = ''agent-1'',
      body = \<lparr>body_roomId = None, emotes = None, triggers = Some [''player1''], rest = []\<rparr>\<rparr>"

section \<open>The validator on typed decisions\<close>

lemma parse_union_literals:
  "parse_union (map ZLiteral xs) v = Some r \<Longrightarrow> r = v \<and> (\<exists>s. v = JStr s)"
  by (induction xs) (auto split: if_splits)

lemma parse_vocab_schema:
  "parse (if length xs > 0 then ZUnion [ZUnion (map ZLiteral xs), ZString, ZNull]
          else ZUnion [ZString, ZNull]) v = Some r \<Longrightarrow> \<exists>x. string_or_null r = Some x"
  by (cases v) (auto simp: string_or_null_def split: if_splits option.splits dest: parse_union_literals)

lemma parse_vocab_schema_accepts:
  "parse (if length xs > 0 then ZUnion [ZUnion (map ZLiteral xs), ZString, ZNull]
          else ZUnion [ZString, ZNull]) (js_string_or_null x) = Some (js_string_or_null x)"
  by (cases x) (auto simp: js_string_or_null_def split: option.splits dest: parse_union_literals)

lemma parse_array_strings:
  "parse_array ZString xs = Some rs \<Longrightarrow> \<exists>ss. strings rs = Some ss"
proof (induction xs arbitrary: rs)
  case Nil
  then show ?case by simp
next
  case (Cons x xs)
  then show ?case by (cases x) (auto split: option.splits)
qed

lemma parse_array_strings_accepts:
  "parse_array ZString (map JStr ss) = Some (map JStr ss)"
  by (induction ss) auto

lemma strings_map_JStr: "strings (map JStr ss) = Some ss"
  by (induction ss) auto



lemma parse_say_schema:
  "parse (ZNullable ZString) v = Some r \<Longrightarrow> \<exists>x. string_or_null r = Some x"
  by (cases v) (auto simp: string_or_null_def split: if_splits)

lemma parse_actions_schema:
  "parse (ZNullable (ZArray ZString)) v = Some r \<Longrightarrow> \<exists>x. strings_or_null r = Some x"
  by (cases v) (auto simp: strings_or_null_def split: if_splits dest: parse_array_strings)

lemma parse_object4:
  assumes "parse (ZObject [(k1, z1), (k2, z2), (k3, z3), (k4, z4)]) obj = Some v"
  shows "\<exists>kvs r1 r2 r3 r4.
           obj = JObj kvs \<and> v = JObj [(k1, r1), (k2, r2), (k3, r3), (k4, r4)] \<and>
           parse z1 (getprop kvs k1) = Some r1 \<and> parse z2 (getprop kvs k2) = Some r2 \<and>
           parse z3 (getprop kvs k3) = Some r3 \<and> parse z4 (getprop kvs k4) = Some r4"
  using assms by (cases obj) (auto split: option.splits)

lemma typed_total:
  assumes p: "parse (createHyperfyOutSchema b) obj = Some v"
  shows "\<exists>d. typed v = Some d"
proof -
  from parse_object4 [OF p [unfolded createHyperfyOutSchema_def Let_def]]
  obtain kvs l em s a where
    v: "v = JObj [(''lookAt'', l), (''emote'', em), (''say'', s), (''actions'', a)]"
    and l: "\<exists>x. string_or_null l = Some x"
    and em: "\<exists>x. string_or_null em = Some x"
    and s: "\<exists>x. string_or_null s = Some x"
    and a: "\<exists>x. strings_or_null a = Some x"
    by (blast dest: parse_vocab_schema parse_say_schema parse_actions_schema)
  then show ?thesis
    by (auto simp: typed_def getprop_def)
qed

lemma parse_object_js_of_hfOut:
  assumes "parse zl (js_string_or_null (lookAt d)) = Some (js_string_or_null (lookAt d))"
    and "parse ze (js_string_or_null (emote d)) = Some (js_string_or_null (emote d))"
  shows "parse (ZObject [(''lookAt'', zl), (''emote'', ze), (''say'', ZNullable ZString),
                         (''actions'', ZNullable (ZArray ZString))]) (js_of_hfOut d)
         = Some (js_of_hfOut d)"
proof -
  have say: "parse (ZNullable ZString) (js_string_or_null x) = Some (js_string_or_null x)" for x
    by (cases x) (auto simp: js_string_or_null_def)
  have acts: "parse (ZNullable (ZArray ZString)) (case x of None \<Rightarrow> JNull | Some xs \<Rightarrow> JArr (map JStr xs))
      = Some (case x of None \<Rightarrow> JNull | Some xs \<Rightarrow> JArr (map JStr xs))" for x
    by (cases x) (auto simp: parse_array_strings_accepts)
  show ?thesis
    by (simp add: js_of_hfOut_def getprop_def assms say acts del: parse.simps(5,6))
qed

lemma parse_js_of_hfOut:
  "parse (createHyperfyOutSchema b) (js_of_hfOut d) = Some (js_of_hfOut d)"
  unfolding createHyperfyOutSchema_def Let_def
  by (rule parse_object_js_of_hfOut) (rule parse_vocab_schema_accepts)+

lemma string_or_null_js: "string_or_null (js_string_or_null x) = Some x"
  by (cases x) (simp_all add: string_or_null_def js_string_or_null_def)

lemma strings_or_null_js:
  "strings_or_null (case x of None \<Rightarrow> JNull | Some xs \<Rightarrow> JArr (map JStr xs)) = Some x"
  by (cases x) (simp_all add: strings_or_null_def strings_map_JStr)

lemma typed_js_of_hfOut: "typed (js_of_hfOut d) = Some d"
  by (simp add: typed_def js_of_hfOut_def getprop_def string_or_null_js strings_or_null_js)

lemma parse_hfOut_None:
  "parse_hfOut (createHyperfyOutSchema b) obj = None \<longleftrightarrow>
   parse (createHyperfyOutSchema b) obj = None"
proof (cases "parse (createHyperfyOutSchema b) obj")
  case None
  then show ?thesis by (simp add: parse_hfOut_def)
next
  case (Some v)
  with typed_total [OF Some] show ?thesis by (auto simp: parse_hfOut_def)
qed

lemma parse_hfOut_js_of_hfOut:
  "parse_hfOut (createHyperfyOutSchema b) (js_of_hfOut d) = Some d"
  by (simp add: parse_hfOut_def parse_js_of_hfOut typed_js_of_hfOut)

section \<open>The shape of a turn's log\<close>

lemma background_events:
  "background e rt um d =
     CreateMemory (responseMessage rt um d) (createMemory e) # Respond (Json d) #
     (if createMemory e then
        Evaluate (incoming e rt um) (evaluate e) #
        (if evaluate e \<and> truthy (action_tag d)
         then [ProcessActions (incoming e rt um) [responseMessage rt um d]] else [])
      else [])"
  by (simp add: background_def Let_def responseMessage_def contentObj_def)

lemma handler_cases:
  obtains
    (decided) rt st ej tj obj d where
      "resolve e agents (agentIdOrName req) = Some rt"
      "composeState e = Some st"
      "vocab_join (emotes (body req)) = Inr ej"
      "vocab_join (triggers (body req)) = Inr tj"
      "generateObject e = GenObject obj"
      "parse_hfOut (createHyperfyOutSchema (body req)) obj = Some d"
      "handler e agents req =
         ComposeState (userMessage e rt (body req)) #
         GenerateObject ej tj (createHyperfyOutSchema (body req)) #
         background e rt (userMessage e rt (body req)) d"
  | (failed)
      "submitted (handler e agents req) = []"
      "dispatched (handler e agents req) = []"
      "\<forall>m ok. Evaluate m ok \<notin> set (handler e agents req)"
      "\<forall>d. Respond (Json d) \<notin> set (handler e agents req)"
proof (cases "\<exists>rt st ej tj obj d. resolve e agents (agentIdOrName req) = Some rt \<and>
      composeState e = Some st \<and> vocab_join (emotes (body req)) = Inr ej \<and>
      vocab_join (triggers (body req)) = Inr tj \<and> generateObject e = GenObject obj \<and>
      parse_hfOut (createHyperfyOutSchema (body req)) obj = Some d")
  case True
  then obtain rt st ej tj obj d where h:
    "resolve e agents (agentIdOrName req) = Some rt"
    "composeState e = Some st"
    "vocab_join (emotes (body req)) = Inr ej"
    "vocab_join (triggers (body req)) = Inr tj"
    "generateObject e = GenObject obj"
    "parse_hfOut (createHyperfyOutSchema (body req)) obj = Some d"
    by blast
  then have "handler e agents req =
         ComposeState (userMessage e rt (body req)) #
         GenerateObject ej tj (createHyperfyOutSchema (body req)) #
         background e rt (userMessage e rt (body req)) d"
    by (simp add: handler_def)
  with h show ?thesis by (rule decided)
next
  case False
  then have "submitted (handler e agents req) = [] \<and>
      dispatched (handler e agents req) = [] \<and>
      (\<forall>m ok. Evaluate m ok \<notin> set (handler e agents req)) \<and>
      (\<forall>d. Respond (Json d) \<notin> set (handler e agents req))"
    by (auto simp: handler_def split: option.splits sum.splits gen_result.splits)
  then show ?thesis using failed by blast
qed

lemma decides_log:
  assumes "decides e agents req rt d"
  shows "\<exists>ej tj. handler e agents req =
         ComposeState (userMessage e rt (body req)) #
         GenerateObject ej tj (createHyperfyOutSchema (body req)) #
         background e rt (userMessage e rt (body req)) d"
  using assms
  by (auto simp: decides_def handler_def vocab_join_def split: gen_result.splits)

lemma submitted_background:
  "submitted (background e rt um' d)
     = [responseMessage rt um' d]"
  by (simp add: background_events)

lemma created_background:
  "created (background e rt um' d)
     = (if createMemory e then [responseMessage rt um' d] else [])"
  by (simp add: background_events)

lemma responses_background:
  "responses (background e rt um' d) = [Json d]"
  by (simp add: background_events)

lemma dispatched_background:
  "dispatched (background e rt um' d)
     = (if createMemory e \<and> evaluate e \<and> truthy (action_tag d)
        then [(incoming e rt um', [responseMessage rt um' d])] else [])"
  by (simp add: background_events)

lemma dispatched_mem: "(m, rs) \<in> set (dispatched log) \<longleftrightarrow> ProcessActions m rs \<in> set log"
  by (induction log rule: dispatched.induct) auto

lemma split_unique:
  assumes "pre @ x # post = xs @ y # suf" and "x \<notin> set xs" and "x \<notin> set suf"
  shows "pre = xs"
  using assms
proof (induction xs arbitrary: pre)
  case Nil
  then show ?case by (cases pre) auto
next
  case (Cons a xs)
  then show ?case by (cases pre) auto
qed

lemma compose_text_actions: "compose_text (hfOut\<lparr>actions := x\<rparr>) = compose_text hfOut"
  by (cases hfOut) (simp add: compose_text_def Let_def split: option.splits)


section \<open>The example turns, evaluated\<close>

lemma example_env_simps:
  "toLowerCase (example_env g ok) = ascii_lower"
  "stringToUuid (example_env g ok) s = ''uuid:'' @ s"
  "JSON_stringify (example_env g ok) b = ''{}''"
  "composeState (example_env g ok) = Some ''state''"
  "generateObject (example_env g ok) = g"
  "createMemory (example_env g ok) = ok"
  "evaluate (example_env g ok) = True"
  by (simp_all add: example_env_def)

lemma example_update: "(example_env g ok)\<lparr>generateObject := g'\<rparr> = example_env g' ok"
  by (simp add: example_env_def)

lemma eliza_simps:
  "agentId eliza = ''agent-1''"
  "name (character eliza) = ''Eliza''"
  by (simp_all add: eliza_def)

lemma example_resolve:
  "resolve (example_env g ok) (registerAgent [] eliza) ''agent-1'' = Some eliza"
  by (simp add: resolve_def registerAgent_def eliza_def)

lemma example_decides:
  assumes "agentIdOrName req = ''agent-1''"
    and "emotes (body req) \<noteq> None" and "triggers (body req) \<noteq> None"
  shows "decides (example_env (GenObject (js_of_hfOut d)) ok) (registerAgent [] eliza) req eliza d"
  using assms
  by (simp add: decides_def example_resolve example_env_simps parse_hfOut_js_of_hfOut)

lemma example_log:
  assumes "agentIdOrName req = ''agent-1''"
    and "emotes (body req) = Some E" and "triggers (body req) = Some V"
  shows "handler (example_env (GenObject (js_of_hfOut d)) ok) (registerAgent [] eliza) req =
     ComposeState (userMessage (example_env (GenObject (js_of_hfOut d)) ok) eliza (body req)) #
     GenerateObject (join E) (join V) (createHyperfyOutSchema (body req)) #
     background (example_env (GenObject (js_of_hfOut d)) ok) eliza
       (userMessage (example_env (GenObject (js_of_hfOut d)) ok) eliza (body req)) d"
  using assms
  by (simp add: handler_def example_resolve example_env_simps vocab_join_def
      parse_hfOut_js_of_hfOut)

lemma scenarioA_object_js: "scenarioA_object = js_of_hfOut scenarioA_decision"
  by (simp add: scenarioA_object_def scenarioA_decision_def js_of_hfOut_def js_string_or_null_def)

lemma all_null_object_js: "all_null_object = js_of_hfOut all_null"
  by (simp add: all_null_object_def all_null_def js_of_hfOut_def js_string_or_null_def)

lemma scenarioA_request_simps:
  "agentIdOrName scenarioA_request = ''agent-1''"
  "body_roomId (body scenarioA_request) = Some ''hyperfy''"
  "emotes (body scenarioA_request) = Some [''wave'', ''laugh'']"
  "triggers (body scenarioA_request) = Some [''player1'']"
  by (simp_all add: scenarioA_request_def scenarioA_body_def)

lemma scenarioB_request_simps:
  "agentIdOrName scenarioB_request = ''agent-1''"
  "body_roomId (body scenarioB_request) = None"
  "emotes (body scenarioB_request) = Some []"
  "triggers (body scenarioB_request) = Some []"
  by (simp_all add: scenarioB_request_def)

lemma example_userMessage:
  "userMessage (example_env g ok) eliza (body scenarioA_request) =
     \<lparr>mem_id = None, userId = ''uuid:hyperfy'', roomId = ''uuid:hyperfy'',
      mem_agentId = ''agent-1'',
      content = \<lparr>content_text = Some ''{}'', action = None, attachments = Some [],
                 source = Some ''hyperfy'', inReplyTo = None\<rparr>,
      createdAt = None\<rparr>"
  by (simp add: userMessage_def example_env_simps scenarioA_request_simps eliza_def)

section \<open>Scenario A and the text of the outgoing record\<close>

text \<open>
  Claim C1, at the code's defect. In the turn whose body has roomId \<open>hyperfy\<close>,
  emotes \<open>wave, laugh\<close>, triggers \<open>player1\<close> and whose backend returns lookAt
  \<open>player1\<close>, emote \<open>wave\<close>, say \<open>hi\<close> and no actions, the response carries
  these four fields and exactly one record is created, sent by the agent. The text of
  that record is \<open>emoted wave\<close>: lines 225-233 compose
  \<open>hi. Then I looked at player1 and \<close> by appending, and line 237 then assigns
  where it would have to append, so what was composed is thrown away.
\<close>

theorem scenarioA_turn:
  assumes "resolve e agents (agentIdOrName req) = Some rt"
    and "composeState e = Some st"
    and "body_roomId (body req) = Some ''hyperfy''"
    and "emotes (body req) = Some [''wave'', ''laugh'']"
    and "triggers (body req) = Some [''player1'']"
    and "generateObject e =
           GenObject (JObj [(''lookAt'', JStr ''player1''), (''emote'', JStr ''wave''),
                            (''say'', JStr ''hi''), (''actions'', JNull)])"
    and "createMemory e"
  shows "responses (handler e agents req) =
           [Json \<lparr>lookAt = Some ''player1'', emote = Some ''wave'', say = Some ''hi'',
                  actions = None\<rparr>] \<and>
         map (content_text \<circ> content) (created (handler e agents req)) = [Some ''emoted wave''] \<and>
         map userId (created (handler e agents req)) = [agentId rt]"
proof -
  let ?d = "\<lparr>lookAt = Some ''player1'', emote = Some ''wave'', say = Some ''hi'',
              actions = None\<rparr>"
  have "JObj [(''lookAt'', JStr ''player1''), (''emote'', JStr ''wave''),
              (''say'', JStr ''hi''), (''actions'', JNull)] = js_of_hfOut ?d"
    by (simp add: js_of_hfOut_def js_string_or_null_def)
  then have "parse_hfOut (createHyperfyOutSchema (body req))
               (JObj [(''lookAt'', JStr ''player1''), (''emote'', JStr ''wave''),
                      (''say'', JStr ''hi''), (''actions'', JNull)]) = Some ?d"
    by (simp only: parse_hfOut_js_of_hfOut)
  with assms have "decides e agents req rt ?d"
    by (simp add: decides_def)
  from decides_log [OF this] obtain ej tj where
    log: "handler e agents req =
       ComposeState (userMessage e rt (body req)) #
       GenerateObject ej tj (createHyperfyOutSchema (body req)) #
       background e rt (userMessage e rt (body req)) ?d"
    by blast
  have "compose_text ?d = Some ''emoted wave''"
    by (simp add: compose_text_def)
  then show ?thesis
    using assms(7)
    by (simp add: log responses_background created_background responseMessage_def contentObj_def)
qed

theorem scenarioA_witness:
  "responses (handler (example_env (GenObject scenarioA_object) True) (registerAgent [] eliza)
      scenarioA_request) = [Json scenarioA_decision] \<and>
   map (content_text \<circ> content)
     (created (handler (example_env (GenObject scenarioA_object) True) (registerAgent [] eliza)
        scenarioA_request)) = [Some ''emoted wave''] \<and>
   map userId
     (created (handler (example_env (GenObject scenarioA_object) True) (registerAgent [] eliza)
        scenarioA_request)) = [''agent-1'']"
proof -
  have r: "resolve (example_env (GenObject scenarioA_object) True) (registerAgent [] eliza)
             (agentIdOrName scenarioA_request) = Some eliza"
    by (simp add: scenarioA_request_simps example_resolve)
  have g: "generateObject (example_env (GenObject scenarioA_object) True) =
             GenObject (JObj [(''lookAt'', JStr ''player1''), (''emote'', JStr ''wave''),
                              (''say'', JStr ''hi''), (''actions'', JNull)])"
    by (simp add: example_env_simps scenarioA_object_def)
  have c: "composeState (example_env (GenObject scenarioA_object) True) = Some ''state''"
    and m: "createMemory (example_env (GenObject scenarioA_object) True)"
    by (simp_all add: example_env_simps)
  from scenarioA_turn [OF r c scenarioA_request_simps(2,3,4) g m]
  show ?thesis
    by (simp add: scenarioA_decision_def eliza_def)
qed

text \<open>
  The text that claim C1 expects, the one composed before line 237, is not the text of
  the record created in that turn.
\<close>

theorem scenarioA_text_counterexample:
  "map (content_text \<circ> content)
     (created (handler (example_env (GenObject scenarioA_object) True) (registerAgent [] eliza)
        scenarioA_request)) \<noteq> [Some ''hi. Then I looked at player1 and '']"
  by (simp add: scenarioA_object_js example_log [OF scenarioA_request_simps(1,3,4)]
      created_background example_env_simps responseMessage_def contentObj_def compose_text_def
      scenarioA_decision_def)

section \<open>The decision with four nulls\<close>

text \<open>
  Claim C2, as amended. A turn whose validated decision has \<open>say\<close>, \<open>lookAt\<close>,
  \<open>emote\<close> and \<open>actions\<close> all null answers with that decision and dispatches no
  behaviour, but it is not set apart as silent: the outgoing record, with null text and
  no action tag, is handed to the memory store like that of any other decision, and is
  created whenever the store accepts it.
\<close>

theorem all_null_decision:
  assumes "decides e agents req rt hfOut"
    and "lookAt hfOut = None" and "emote hfOut = None" and "say hfOut = None"
    and "actions hfOut = None"
  shows "responses (handler e agents req) = [Json hfOut] \<and>
         submitted (handler e agents req) = [responseMessage rt (userMessage e rt (body req)) hfOut] \<and>
         created (handler e agents req) =
           (if createMemory e then [responseMessage rt (userMessage e rt (body req)) hfOut] else []) \<and>
         userId (responseMessage rt (userMessage e rt (body req)) hfOut) = agentId rt \<and>
         content_text (content (responseMessage rt (userMessage e rt (body req)) hfOut)) = None \<and>
         action (content (responseMessage rt (userMessage e rt (body req)) hfOut)) = None \<and>
         dispatched (handler e agents req) = []"
proof -
  from decides_log [OF assms(1)] obtain ej tj where
    log: "handler e agents req =
       ComposeState (userMessage e rt (body req)) #
       GenerateObject ej tj (createHyperfyOutSchema (body req)) #
       background e rt (userMessage e rt (body req)) hfOut"
    by blast
  have "compose_text hfOut = None" "action_tag hfOut = None"
    using assms(2-5) by (simp_all add: compose_text_def action_tag_def)
  then show ?thesis
    by (simp add: log responses_background submitted_background created_background
        dispatched_background responseMessage_def contentObj_def truthy_def)
qed

theorem all_null_decision_witness:
  "responses (handler (example_env (GenObject (js_of_hfOut all_null)) True)
      (registerAgent [] eliza) scenarioB_request) = [Json all_null] \<and>
   created (handler (example_env (GenObject (js_of_hfOut all_null)) True)
      (registerAgent [] eliza) scenarioB_request) =
     [responseMessage eliza
        (userMessage (example_env (GenObject (js_of_hfOut all_null)) True) eliza
           (body scenarioB_request)) all_null] \<and>
   dispatched (handler (example_env (GenObject (js_of_hfOut all_null)) True)
      (registerAgent [] eliza) scenarioB_request) = []"
proof -
  have d: "decides (example_env (GenObject (js_of_hfOut all_null)) True) (registerAgent [] eliza)
             scenarioB_request eliza all_null"
    by (rule example_decides) (simp_all add: scenarioB_request_simps)
  have n: "lookAt all_null = None" "emote all_null = None" "say all_null = None"
    "actions all_null = None"
    by (simp_all add: all_null_def)
  from all_null_decision [OF d n]
  show ?thesis
    by (simp add: example_env_simps)
qed

text \<open>
  Claim C2 as stated fails in scenario B (empty vocabularies, four nulls from the
  backend): a record is created.
\<close>

theorem all_null_counterexample:
  "created (handler (example_env (GenObject all_null_object) True) (registerAgent [] eliza)
      scenarioB_request) \<noteq> []"
  by (simp add: all_null_object_js example_log [OF scenarioB_request_simps(1,3,4)]
      created_background example_env_simps)

section \<open>Missing vocabularies\<close>

text \<open>
  Claim C3. When the body leaves out \<open>emotes\<close> or \<open>triggers\<close>, the backend is never
  called, whatever else happens; and once the agent is resolved and the state composed,
  the turn ends right there with the TypeError that \<open>.join\<close> raises on \<open>undefined\<close>
  (the failure the specification calls MissingVocabulary), before \<open>generateObject\<close>.
\<close>

theorem missing_vocabulary:
  assumes "emotes (body req) = None \<or> triggers (body req) = None"
  shows "backend_calls (handler e agents req) = 0 \<and>
         (\<forall>rt st. resolve e agents (agentIdOrName req) = Some rt \<and> composeState e = Some st \<longrightarrow>
            handler e agents req = [ComposeState (userMessage e rt (body req)), Throw TypeError])"
  using assms
  by (auto simp: handler_def vocab_join_def split: option.splits)

theorem missing_vocabulary_witness:
  "backend_calls (handler (example_env (GenObject all_null_object) True) (registerAgent [] eliza)
      no_emotes_request) = 0 \<and>
   handler (example_env (GenObject all_null_object) True) (registerAgent [] eliza)
      no_emotes_request =
     [ComposeState (userMessage (example_env (GenObject all_null_object) True) eliza
        (body no_emotes_request)), Throw TypeError]"
proof -
  have h: "emotes (body no_emotes_request) = None \<or> triggers (body no_emotes_request) = None"
    by (simp add: no_emotes_request_def)
  have r: "resolve (example_env (GenObject all_null_object) True) (registerAgent [] eliza)
             (agentIdOrName no_emotes_request) = Some eliza"
    by (simp add: no_emotes_request_def example_resolve)
  from missing_vocabulary [OF h, of "example_env (GenObject all_null_object) True"
      "registerAgent [] eliza"] r
  show ?thesis
    by (simp add: example_env_simps)
qed

section \<open>The incoming record\<close>

text \<open>
  Claim C4, as amended. In every turn that reaches a validated decision, the only record
  handed to the memory store is the outgoing one. The incoming record, which stands for
  the stimulus and has the world identity as sender, is built and passed to evaluation,
  and only once the creation of the outgoing record has completed; whenever that
  creation succeeds, evaluation of the incoming record does start. The incoming record
  itself is never written to the store.
\<close>

theorem incoming_record:
  assumes "decides e agents req rt hfOut"
  shows "submitted (handler e agents req) = [responseMessage rt (userMessage e rt (body req)) hfOut] \<and>
         (\<forall>pre m ok post. handler e agents req = pre @ Evaluate m ok # post \<longrightarrow>
            m = incoming e rt (userMessage e rt (body req)) \<and>
            userId m = stringToUuid e ''hyperfy'' \<and>
            content_text (content m) = Some (JSON_stringify e (body req)) \<and>
            CreateMemory (responseMessage rt (userMessage e rt (body req)) hfOut) True \<in> set pre) \<and>
         (createMemory e \<longrightarrow>
            Evaluate (incoming e rt (userMessage e rt (body req))) (evaluate e)
              \<in> set (handler e agents req))"
proof -
  let ?um = "userMessage e rt (body req)"
  let ?rm = "responseMessage rt ?um hfOut"
  from decides_log [OF assms(1)] obtain ej tj where
    log: "handler e agents req =
       ComposeState ?um # GenerateObject ej tj (createHyperfyOutSchema (body req)) #
       background e rt ?um hfOut"
    by blast
  have sub: "submitted (handler e agents req) = [?rm]"
    by (simp add: log submitted_background)
  have ev: "createMemory e \<longrightarrow> Evaluate (incoming e rt ?um) (evaluate e) \<in> set (handler e agents req)"
    by (simp add: log background_events)
  have ord: "m = incoming e rt ?um \<and> userId m = stringToUuid e ''hyperfy'' \<and>
            content_text (content m) = Some (JSON_stringify e (body req)) \<and>
            CreateMemory ?rm True \<in> set pre"
    if split: "handler e agents req = pre @ Evaluate m ok # post" for pre m ok post
  proof -
    have "Evaluate m ok \<in> set (handler e agents req)"
      by (simp add: split)
    then have c: "createMemory e" and m: "m = incoming e rt ?um" "ok = evaluate e"
      by (auto simp: log background_events split: if_splits)
    have "pre @ Evaluate m ok # post =
        [ComposeState ?um, GenerateObject ej tj (createHyperfyOutSchema (body req)),
         CreateMemory ?rm True, Respond (Json hfOut)] @ Evaluate m ok #
        (if evaluate e \<and> truthy (action_tag hfOut)
         then [ProcessActions (incoming e rt ?um) [?rm]] else [])"
      using split c m by (simp add: log background_events)
    then have "pre = [ComposeState ?um, GenerateObject ej tj (createHyperfyOutSchema (body req)),
         CreateMemory ?rm True, Respond (Json hfOut)]"
      by (rule split_unique) simp_all
    then show ?thesis
      using m by (simp add: incoming_def userMessage_def)
  qed
  from sub ord ev show ?thesis by blast
qed

theorem incoming_record_witness:
  "submitted (handler (example_env (GenObject (js_of_hfOut scenarioA_decision)) True)
      (registerAgent [] eliza) scenarioA_request) =
     [responseMessage eliza
        (userMessage (example_env (GenObject (js_of_hfOut scenarioA_decision)) True) eliza
           (body scenarioA_request)) scenarioA_decision] \<and>
   userId (incoming (example_env (GenObject (js_of_hfOut scenarioA_decision)) True) eliza
      (userMessage (example_env (GenObject (js_of_hfOut scenarioA_decision)) True) eliza
         (body scenarioA_request))) = ''uuid:hyperfy'' \<and>
   CreateMemory
     (responseMessage eliza
        (userMessage (example_env (GenObject (js_of_hfOut scenarioA_decision)) True) eliza
           (body scenarioA_request)) scenarioA_decision) True
     \<in> set [ComposeState
                (userMessage (example_env (GenObject (js_of_hfOut scenarioA_decision)) True) eliza
                   (body scenarioA_request)),
              GenerateObject ''wave|laugh'' ''player1''
                (createHyperfyOutSchema (body scenarioA_request)),
              CreateMemory
                (responseMessage eliza
                   (userMessage (example_env (GenObject (js_of_hfOut scenarioA_decision)) True)
                      eliza (body scenarioA_request)) scenarioA_decision) True,
              Respond (Json scenarioA_decision)] \<and>
   Evaluate
     (incoming (example_env (GenObject (js_of_hfOut scenarioA_decision)) True) eliza
        (userMessage (example_env (GenObject (js_of_hfOut scenarioA_decision)) True) eliza
           (body scenarioA_request))) True
     \<in> set (handler (example_env (GenObject (js_of_hfOut scenarioA_decision)) True)
               (registerAgent [] eliza) scenarioA_request)"
proof -
  let ?e = "example_env (GenObject (js_of_hfOut scenarioA_decision)) True"
  let ?um = "userMessage ?e eliza (body scenarioA_request)"
  let ?rm = "responseMessage eliza ?um scenarioA_decision"
  have d: "decides ?e (registerAgent [] eliza) scenarioA_request eliza scenarioA_decision"
    by (rule example_decides) (simp_all add: scenarioA_request_simps)
  have split: "handler ?e (registerAgent [] eliza) scenarioA_request =
      [ComposeState ?um,
       GenerateObject ''wave|laugh'' ''player1'' (createHyperfyOutSchema (body scenarioA_request)),
       CreateMemory ?rm True, Respond (Json scenarioA_decision)]
      @ Evaluate (incoming ?e eliza ?um) True # []"
    by (simp add: example_log [OF scenarioA_request_simps(1,3,4)] background_events
        example_env_simps action_tag_def scenarioA_decision_def truthy_def)
  have m: "createMemory ?e"
    by (simp add: example_env_simps)
  note t = incoming_record [OF d]
  from t have sub: "submitted (handler ?e (registerAgent [] eliza) scenarioA_request) = [?rm]"
    by (rule conjunct1)
  from t split have ord:
    "userId (incoming ?e eliza ?um) = stringToUuid ?e ''hyperfy'' \<and>
     CreateMemory ?rm True
       \<in> set [ComposeState ?um,
                GenerateObject ''wave|laugh'' ''player1''
                  (createHyperfyOutSchema (body scenarioA_request)),
                CreateMemory ?rm True, Respond (Json scenarioA_decision)]"
    by blast
  from t m have ev: "Evaluate (incoming ?e eliza ?um) (evaluate ?e)
      \<in> set (handler ?e (registerAgent [] eliza) scenarioA_request)"
    by blast
  from sub ord ev show ?thesis
    by (simp only: example_env_simps) simp
qed

text \<open>
  Claim C4 as stated fails in scenario A, a turn that is not silent and whose store
  accepts every record: no record with the world identity as sender is created.
\<close>

theorem incoming_record_counterexample:
  "stringToUuid (example_env (GenObject scenarioA_object) True) ''hyperfy''
     \<notin> set (map userId
         (created (handler (example_env (GenObject scenarioA_object) True)
            (registerAgent [] eliza) scenarioA_request)))"
  by (simp add: scenarioA_object_js example_log [OF scenarioA_request_simps(1,3,4)]
      created_background example_env_simps responseMessage_def eliza_simps)

section \<open>Dispatch only after the outgoing record\<close>

text \<open>
  Claim C5. In every turn, a dispatch (\<open>processActions\<close>) is preceded in the log by the
  successful creation of the outgoing record, which is the one record passed to the
  dispatch, is sent by the agent and carries the action tag. If \<open>createMemory\<close>
  rejects, nothing is dispatched, whatever \<open>actions\<close> names.
\<close>

theorem dispatch_after_commit:
  "(\<forall>pre m rs post. handler e agents req = pre @ ProcessActions m rs # post \<longrightarrow>
      (\<exists>rm. rs = [rm] \<and> userId rm = mem_agentId rm \<and> truthy (action (content rm)) \<and>
            CreateMemory rm True \<in> set pre)) \<and>
   (\<not> createMemory e \<longrightarrow> dispatched (handler e agents req) = [])"
proof (cases rule: handler_cases [of e agents req])
  case (decided rt st ej tj obj d)
  let ?um = "userMessage e rt (body req)"
  let ?rm = "responseMessage rt ?um d"
  have second: "\<not> createMemory e \<longrightarrow> dispatched (handler e agents req) = []"
    by (simp add: decided(7) dispatched_background)
  have first: "\<exists>rm. rs = [rm] \<and> userId rm = mem_agentId rm \<and> truthy (action (content rm)) \<and>
            CreateMemory rm True \<in> set pre"
    if split: "handler e agents req = pre @ ProcessActions m rs # post" for pre m rs post
  proof -
    have "ProcessActions m rs \<in> set (handler e agents req)"
      by (simp add: split)
    then have c: "createMemory e" "evaluate e" "truthy (action_tag d)"
      and m: "m = incoming e rt ?um" "rs = [?rm]"
      by (auto simp: decided(7) background_events split: if_splits)
    have "pre @ ProcessActions m rs # post =
        [ComposeState ?um, GenerateObject ej tj (createHyperfyOutSchema (body req)),
         CreateMemory ?rm True, Respond (Json d), Evaluate (incoming e rt ?um) True]
        @ ProcessActions (incoming e rt ?um) [?rm] # []"
      using split c by (simp add: decided(7) background_events)
    then have "pre = [ComposeState ?um, GenerateObject ej tj (createHyperfyOutSchema (body req)),
         CreateMemory ?rm True, Respond (Json d), Evaluate (incoming e rt ?um) True]"
      by (rule split_unique) (simp_all add: m)
    then show ?thesis
      using m c by (simp add: responseMessage_def userMessage_def contentObj_def)
  qed
  from first second show ?thesis by blast
next
  case failed
  then have "ProcessActions m rs \<notin> set (handler e agents req)" for m rs
    using dispatched_mem [of m rs "handler e agents req"] by simp
  then have "handler e agents req \<noteq> pre @ ProcessActions m rs # post" for pre m rs post
    by (metis in_set_conv_decomp)
  with failed show ?thesis by simp
qed

theorem dispatch_after_commit_witness:
  "CreateMemory
     (responseMessage eliza
        (userMessage (example_env (GenObject (js_of_hfOut follow_only)) True) eliza
           (body scenarioA_request)) follow_only) True
     \<in> set [ComposeState
                (userMessage (example_env (GenObject (js_of_hfOut follow_only)) True) eliza
                   (body scenarioA_request)),
              GenerateObject ''wave|laugh'' ''player1''
                (createHyperfyOutSchema (body scenarioA_request)),
              CreateMemory
                (responseMessage eliza
                   (userMessage (example_env (GenObject (js_of_hfOut follow_only)) True)
                      eliza (body scenarioA_request)) follow_only) True,
              Respond (Json follow_only),
              Evaluate
                (incoming (example_env (GenObject (js_of_hfOut follow_only)) True) eliza
                   (userMessage (example_env (GenObject (js_of_hfOut follow_only)) True) eliza
                      (body scenarioA_request))) True] \<and>
   dispatched (handler (example_env (GenObject (js_of_hfOut follow_only)) False)
      (registerAgent [] eliza) scenarioA_request) = []"
proof -
  let ?e = "example_env (GenObject (js_of_hfOut follow_only)) True"
  let ?um = "userMessage ?e eliza (body scenarioA_request)"
  let ?rm = "responseMessage eliza ?um follow_only"
  have split: "handler ?e (registerAgent [] eliza) scenarioA_request =
      [ComposeState ?um,
       GenerateObject ''wave|laugh'' ''player1'' (createHyperfyOutSchema (body scenarioA_request)),
       CreateMemory ?rm True, Respond (Json follow_only), Evaluate (incoming ?e eliza ?um) True]
      @ ProcessActions (incoming ?e eliza ?um) [?rm] # []"
    by (simp add: example_log [OF scenarioA_request_simps(1,3,4)] background_events
        example_env_simps action_tag_def follow_only_def truthy_def)
  have f: "\<not> createMemory (example_env (GenObject (js_of_hfOut follow_only)) False)"
    by (simp add: example_env_simps)
  from dispatch_after_commit [of ?e "registerAgent [] eliza" scenarioA_request] split
  have "\<exists>rm. [?rm] = [rm] \<and> userId rm = mem_agentId rm \<and> truthy (action (content rm)) \<and>
      CreateMemory rm True
        \<in> set [ComposeState ?um,
                 GenerateObject ''wave|laugh'' ''player1''
                   (createHyperfyOutSchema (body scenarioA_request)),
                 CreateMemory ?rm True, Respond (Json follow_only),
                 Evaluate (incoming ?e eliza ?um) True]"
    by blast
  then have first: "CreateMemory ?rm True
        \<in> set [ComposeState ?um,
                 GenerateObject ''wave|laugh'' ''player1''
                   (createHyperfyOutSchema (body scenarioA_request)),
                 CreateMemory ?rm True, Respond (Json follow_only),
                 Evaluate (incoming ?e eliza ?um) True]"
    by simp
  from dispatch_after_commit [of "example_env (GenObject (js_of_hfOut follow_only)) False"
      "registerAgent [] eliza" scenarioA_request] f
  have second: "dispatched (handler (example_env (GenObject (js_of_hfOut follow_only)) False)
      (registerAgent [] eliza) scenarioA_request) = []"
    by blast
  from first second show ?thesis
    by (rule conjI)
qed

section \<open>What the synthesized schema accepts\<close>

text \<open>
  Claim C6. \<open>createHyperfyOutSchema\<close> is a total function of the two vocabularies,
  with no branch that raises. For every pair of string vocabularies, both empty
  included, the schema it returns accepts the object with four nulls; and when the
  trigger vocabulary \<open>V\<close> is not empty it accepts a decision whose \<open>lookAt\<close> is any
  entry of \<open>V\<close> and also one whose \<open>lookAt\<close> is any string outside \<open>V\<close>, the other
  three fields being any well-typed values.
\<close>

theorem schema_accepts:
  "parse (createHyperfyOutSchema \<lparr>body_roomId = r, emotes = Some E, triggers = Some V, rest = x\<rparr>)
     (JObj [(''lookAt'', JNull), (''emote'', JNull), (''say'', JNull), (''actions'', JNull)])
     = Some (JObj [(''lookAt'', JNull), (''emote'', JNull), (''say'', JNull), (''actions'', JNull)]) \<and>
   (V \<noteq> [] \<longrightarrow>
      (\<forall>v \<in> set V.
         parse (createHyperfyOutSchema \<lparr>body_roomId = r, emotes = Some E, triggers = Some V, rest = x\<rparr>)
           (js_of_hfOut (hfOut\<lparr>lookAt := Some v\<rparr>)) = Some (js_of_hfOut (hfOut\<lparr>lookAt := Some v\<rparr>))) \<and>
      (\<forall>s. s \<notin> set V \<longrightarrow>
         parse (createHyperfyOutSchema \<lparr>body_roomId = r, emotes = Some E, triggers = Some V, rest = x\<rparr>)
           (js_of_hfOut (hfOut\<lparr>lookAt := Some s\<rparr>)) = Some (js_of_hfOut (hfOut\<lparr>lookAt := Some s\<rparr>))))"
proof -
  have "JObj [(''lookAt'', JNull), (''emote'', JNull), (''say'', JNull), (''actions'', JNull)]
      = js_of_hfOut all_null"
    by (simp add: js_of_hfOut_def js_string_or_null_def all_null_def)
  then show ?thesis
    by (simp only: parse_js_of_hfOut) simp
qed

theorem schema_accepts_witness:
  "parse (createHyperfyOutSchema scenarioA_body)
     (JObj [(''lookAt'', JNull), (''emote'', JNull), (''say'', JNull), (''actions'', JNull)])
     = Some (JObj [(''lookAt'', JNull), (''emote'', JNull), (''say'', JNull), (''actions'', JNull)]) \<and>
   parse (createHyperfyOutSchema scenarioA_body)
     (JObj [(''lookAt'', JStr ''player1''), (''emote'', JNull), (''say'', JNull), (''actions'', JNull)])
     = Some (JObj [(''lookAt'', JStr ''player1''), (''emote'', JNull), (''say'', JNull), (''actions'', JNull)]) \<and>
   parse (createHyperfyOutSchema scenarioA_body)
     (JObj [(''lookAt'', JStr ''stranger''), (''emote'', JNull), (''say'', JNull), (''actions'', JNull)])
     = Some (JObj [(''lookAt'', JStr ''stranger''), (''emote'', JNull), (''say'', JNull), (''actions'', JNull)])"
proof -
  have ne: "[''player1''] \<noteq> []" and mem: "''player1'' \<in> set [''player1'']"
    and nmem: "''stranger'' \<notin> set [''player1'']"
    by simp_all
  from schema_accepts [of "Some ''hyperfy''" "[''wave'', ''laugh'']" "[''player1'']" "[]" all_null]
  show ?thesis
    using ne mem nmem
    by (simp add: scenarioA_body_def js_of_hfOut_def js_string_or_null_def all_null_def
        del: parse.simps)
qed

section \<open>One action per turn\<close>

text \<open>
  Claim C7, as amended. When the validated decision's \<open>actions\<close> is a non-empty
  sequence, its first element is the action tag of the outgoing record, and the record
  is the one that the same decision would give with that element alone: the remaining
  elements are not kept in the record. They appear in the response only. At most one
  dispatch happens, with that record, and only when the first element is a non-empty
  string and both \<open>createMemory\<close> and \<open>evaluate\<close> resolve; the remaining elements
  are never executed.
\<close>

theorem first_action_only:
  assumes "decides e agents req rt hfOut" and "actions hfOut = Some (a # others)"
  shows "action (content (responseMessage rt (userMessage e rt (body req)) hfOut)) = Some a \<and>
         submitted (handler e agents req) =
           [responseMessage rt (userMessage e rt (body req)) (hfOut\<lparr>actions := Some [a]\<rparr>)] \<and>
         dispatched (handler e agents req) =
           (if createMemory e \<and> evaluate e \<and> a \<noteq> []
            then [(incoming e rt (userMessage e rt (body req)),
                   [responseMessage rt (userMessage e rt (body req)) (hfOut\<lparr>actions := Some [a]\<rparr>)])]
            else []) \<and>
         responses (handler e agents req) = [Json hfOut]"
proof -
  from decides_log [OF assms(1)] obtain ej tj where
    log: "handler e agents req =
       ComposeState (userMessage e rt (body req)) #
       GenerateObject ej tj (createHyperfyOutSchema (body req)) #
       background e rt (userMessage e rt (body req)) hfOut"
    by blast
  have tag: "action_tag hfOut = Some a"
    using assms(2) by (simp add: action_tag_def)
  have same: "contentObj (hfOut\<lparr>actions := Some [a]\<rparr>) = contentObj hfOut"
    using assms(2) by (simp add: contentObj_def action_tag_def compose_text_actions)
  then have rm: "responseMessage rt um (hfOut\<lparr>actions := Some [a]\<rparr>) = responseMessage rt um hfOut" for um
    by (simp add: responseMessage_def)
  show ?thesis
    by (simp add: log rm submitted_background dispatched_background responses_background tag truthy_def)
       (simp add: responseMessage_def contentObj_def tag)
qed

theorem first_action_only_witness:
  "action (content (responseMessage eliza
      (userMessage (example_env (GenObject (js_of_hfOut follow_dance)) True) eliza
         (body scenarioA_request)) follow_dance)) = Some ''follow'' \<and>
   submitted (handler (example_env (GenObject (js_of_hfOut follow_dance)) True)
      (registerAgent [] eliza) scenarioA_request) =
     [responseMessage eliza
        (userMessage (example_env (GenObject (js_of_hfOut follow_dance)) True) eliza
           (body scenarioA_request)) follow_only] \<and>
   responses (handler (example_env (GenObject (js_of_hfOut follow_dance)) True)
      (registerAgent [] eliza) scenarioA_request) = [Json follow_dance]"
proof -
  have d: "decides (example_env (GenObject (js_of_hfOut follow_dance)) True) (registerAgent [] eliza)
             scenarioA_request eliza follow_dance"
    by (rule example_decides) (simp_all add: scenarioA_request_simps)
  have a: "actions follow_dance = Some (''follow'' # [''dance''])"
    by (simp add: follow_dance_def)
  have f: "follow_dance\<lparr>actions := Some [''follow'']\<rparr> = follow_only"
    by (simp add: follow_dance_def follow_only_def)
  from first_action_only [OF d a]
  show ?thesis
    by (simp only: f)
qed

text \<open>
  Claim C7 as stated fails for the decision with actions \<open>follow, dance\<close>: the record
  handed to the store holds \<open>follow\<close> as its tag and \<open>dance\<close> nowhere.
\<close>

theorem actions_remainder_counterexample:
  "submitted (handler (example_env (GenObject (js_of_hfOut follow_dance)) True)
      (registerAgent [] eliza) scenarioA_request) =
     [\<lparr>mem_id = None, userId = ''agent-1'', roomId = ''uuid:hyperfy'', mem_agentId = ''agent-1'',
       content = \<lparr>content_text = Some ''ok'', action = Some ''follow'', attachments = None,
                  source = None, inReplyTo = None\<rparr>,
       createdAt = None\<rparr>]"
  by (simp add: example_log [OF scenarioA_request_simps(1,3,4)] submitted_background
      responseMessage_def example_userMessage eliza_simps contentObj_def compose_text_def
      action_tag_def follow_dance_def)

section \<open>Agent resolution\<close>

text \<open>
  Claim C8. The agent is looked up by exact identifier first: an entry under that
  identifier is the one taken. Without such an entry the agent taken is the first
  registered one whose lower-cased character name equals the lower-cased parameter.
  A request whose agent resolves is served with that agent: the turn opens by composing
  the state for it, and every record the turn hands to the store names it as agent and
  sender. The handler answers 404 \<open>Agent not found\<close>, and does nothing else, exactly
  when neither lookup finds an agent; in particular it then makes no backend call.
\<close>

theorem agent_resolution:
  "(map_of agents i = Some rt \<longrightarrow> resolve e agents i = Some rt) \<and>
   (map_of agents i = None \<longrightarrow>
      (resolve e agents i = Some rt \<longleftrightarrow>
         (\<exists>k < length agents. snd (agents ! k) = rt \<and>
            toLowerCase e (name (character rt)) = toLowerCase e i \<and>
            (\<forall>j < k. toLowerCase e (name (character (snd (agents ! j)))) \<noteq> toLowerCase e i)))) \<and>
   (resolve e agents (agentIdOrName req) = Some rt \<longrightarrow>
      (\<exists>log. handler e agents req = ComposeState (userMessage e rt (body req)) # log) \<and>
      mem_agentId (userMessage e rt (body req)) = agentId rt \<and>
      (\<forall>m \<in> set (submitted (handler e agents req)).
         userId m = agentId rt \<and> mem_agentId m = agentId rt)) \<and>
   (handler e agents req = [Respond (Send 404 ''Agent not found'')] \<longleftrightarrow>
      resolve e agents (agentIdOrName req) = None) \<and>
   (resolve e agents (agentIdOrName req) = None \<longleftrightarrow>
      map_of agents (agentIdOrName req) = None \<and>
      (\<forall>a \<in> set (map snd agents).
         toLowerCase e (name (character a)) \<noteq> toLowerCase e (agentIdOrName req))) \<and>
   (map_of agents (agentIdOrName req) = None \<and>
    (\<forall>a \<in> set (map snd agents).
       toLowerCase e (name (character a)) \<noteq> toLowerCase e (agentIdOrName req)) \<longrightarrow>
      handler e agents req = [Respond (Send 404 ''Agent not found'')] \<and>
      backend_calls (handler e agents req) = 0)"
proof -
  have exact: "map_of agents i = Some rt \<longrightarrow> resolve e agents i = Some rt"
    by (simp add: resolve_def)
  have by_name: "map_of agents i = None \<longrightarrow>
      (resolve e agents i = Some rt \<longleftrightarrow>
         (\<exists>k < length agents. snd (agents ! k) = rt \<and>
            toLowerCase e (name (character rt)) = toLowerCase e i \<and>
            (\<forall>j < k. toLowerCase e (name (character (snd (agents ! j)))) \<noteq> toLowerCase e i)))"
    by (auto simp: resolve_def find_Some_iff)
  have none: "resolve e agents (agentIdOrName req) = None \<longleftrightarrow>
      map_of agents (agentIdOrName req) = None \<and>
      (\<forall>a \<in> set (map snd agents).
         toLowerCase e (name (character a)) \<noteq> toLowerCase e (agentIdOrName req))"
    by (auto simp: resolve_def find_None_iff split: option.splits)
  have served: "(\<exists>log. handler e agents req = ComposeState (userMessage e rt (body req)) # log) \<and>
      mem_agentId (userMessage e rt (body req)) = agentId rt \<and>
      (\<forall>m \<in> set (submitted (handler e agents req)).
         userId m = agentId rt \<and> mem_agentId m = agentId rt)"
    if r: "resolve e agents (agentIdOrName req) = Some rt"
  proof -
    have first: "\<exists>log. handler e agents req = ComposeState (userMessage e rt (body req)) # log"
      by (simp add: handler_def r)
    have um: "mem_agentId (userMessage e rt (body req)) = agentId rt"
      by (simp add: userMessage_def)
    have sub: "\<forall>m \<in> set (submitted (handler e agents req)).
         userId m = agentId rt \<and> mem_agentId m = agentId rt"
    proof (cases rule: handler_cases [of e agents req])
      case (decided rt' st ej tj obj d)
      with r have "rt' = rt" by simp
      with decided(7) show ?thesis
        by (simp add: submitted_background responseMessage_def userMessage_def)
    next
      case failed
      then show ?thesis by simp
    qed
    from first um sub show ?thesis by blast
  qed
  have nf: "handler e agents req = [Respond (Send 404 ''Agent not found'')] \<longleftrightarrow>
      resolve e agents (agentIdOrName req) = None"
  proof (cases "resolve e agents (agentIdOrName req)")
    case None
    then show ?thesis by (simp add: handler_def)
  next
    case (Some rt')
    then show ?thesis by (simp add: handler_def)
  qed
  have last: "map_of agents (agentIdOrName req) = None \<and>
    (\<forall>a \<in> set (map snd agents).
       toLowerCase e (name (character a)) \<noteq> toLowerCase e (agentIdOrName req)) \<longrightarrow>
      handler e agents req = [Respond (Send 404 ''Agent not found'')] \<and>
      backend_calls (handler e agents req) = 0"
  proof
    assume "map_of agents (agentIdOrName req) = None \<and>
      (\<forall>a \<in> set (map snd agents).
         toLowerCase e (name (character a)) \<noteq> toLowerCase e (agentIdOrName req))"
    with none nf have h: "handler e agents req = [Respond (Send 404 ''Agent not found'')]"
      by blast
    then have "backend_calls (handler e agents req) = 0"
      by simp
    with h show "handler e agents req = [Respond (Send 404 ''Agent not found'')] \<and>
      backend_calls (handler e agents req) = 0"
      by blast
  qed
  from exact by_name served nf none last show ?thesis
    by blast
qed

theorem agent_resolution_witness:
  "resolve (example_env GenNone True) (registerAgent [] eliza) ''agent-1'' = Some eliza \<and>
   resolve (example_env GenNone True) (registerAgent [] eliza) ''ELIZA'' = Some eliza \<and>
   (\<exists>log. handler (example_env GenNone True) (registerAgent [] eliza)
       \<lparr>agentIdOrName = ''ELIZA'', body = scenarioA_body\<rparr> =
     ComposeState (userMessage (example_env GenNone True) eliza scenarioA_body) # log) \<and>
   handler (example_env GenNone True) (registerAgent [] eliza)
       \<lparr>agentIdOrName = ''ELIZA'', body = scenarioA_body\<rparr>
     \<noteq> [Respond (Send 404 ''Agent not found'')] \<and>
   handler (example_env GenNone True) (registerAgent [] eliza)
     \<lparr>agentIdOrName = ''nonexistent'', body = scenarioA_body\<rparr>
     = [Respond (Send 404 ''Agent not found'')]"
proof -
  let ?e = "example_env GenNone True"
  let ?agents = "registerAgent [] eliza"
  let ?req = "\<lparr>agentIdOrName = ''nonexistent'', body = scenarioA_body\<rparr>"
  let ?named = "\<lparr>agentIdOrName = ''ELIZA'', body = scenarioA_body\<rparr>"
  have agents: "?agents = [(''agent-1'', eliza)]"
    by (simp add: registerAgent_def eliza_simps)
  have l1: "ascii_lower ''Eliza'' = ascii_lower ''ELIZA''"
    by code_simp
  have l2: "ascii_lower ''Eliza'' \<noteq> ascii_lower ''nonexistent''"
    by code_simp
  have exact: "map_of ?agents ''agent-1'' = Some eliza"
    by (simp add: agents)
  have by_name: "map_of ?agents ''ELIZA'' = None"
    "\<exists>k < length ?agents. snd (?agents ! k) = eliza \<and>
       toLowerCase ?e (name (character eliza)) = toLowerCase ?e ''ELIZA'' \<and>
       (\<forall>j < k. toLowerCase ?e (name (character (snd (?agents ! j)))) \<noteq> toLowerCase ?e ''ELIZA'')"
    by (simp_all add: agents example_env_simps eliza_simps l1)
  have neither: "map_of ?agents (agentIdOrName ?req) = None \<and>
      (\<forall>a \<in> set (map snd ?agents).
         toLowerCase ?e (name (character a)) \<noteq> toLowerCase ?e (agentIdOrName ?req))"
    by (simp add: agents example_env_simps eliza_simps l2)
  from agent_resolution [of ?agents "''agent-1''" eliza ?e ?req] exact
  have 1: "resolve ?e ?agents ''agent-1'' = Some eliza"
    by blast
  from agent_resolution [of ?agents "''ELIZA''" eliza ?e ?req] by_name
  have 2: "resolve ?e ?agents ''ELIZA'' = Some eliza"
    by blast
  then have r: "resolve ?e ?agents (agentIdOrName ?named) = Some eliza"
    by simp
  note served = agent_resolution [of ?agents "''ELIZA''" eliza ?e ?named]
  from served r
  have 3: "\<exists>log. handler ?e ?agents ?named =
      ComposeState (userMessage ?e eliza (body ?named)) # log"
    by blast
  from served r
  have 4: "handler ?e ?agents ?named \<noteq> [Respond (Send 404 ''Agent not found'')]"
    by simp
  from agent_resolution [of ?agents "''agent-1''" eliza ?e ?req] neither
  have 5: "handler ?e ?agents ?req = [Respond (Send 404 ''Agent not found'')]"
    by blast
  from 3 have first_event: "\<exists>log. handler ?e ?agents ?named =
      ComposeState (userMessage ?e eliza scenarioA_body) # log"
    by simp
  from 1 2 first_event 4 5 show ?thesis
    by blast
qed

section \<open>The emote replaces the composed text\<close>

text \<open>
  Claim C9. When the validated decision has an emote, the text of the record handed to
  the memory store is \<open>emoted\<close>, a space and the emote, whatever \<open>say\<close> and
  \<open>lookAt\<close> are: what lines 225-233 composed from them is replaced on line 237.
\<close>

theorem emote_overwrites:
  assumes "decides e agents req rt hfOut" and "emote hfOut = Some em"
  shows "map (content_text \<circ> content) (submitted (handler e agents req)) = [Some (''emoted '' @ em)]"
proof -
  from decides_log [OF assms(1)] obtain ej tj where
    "handler e agents req =
       ComposeState (userMessage e rt (body req)) #
       GenerateObject ej tj (createHyperfyOutSchema (body req)) #
       background e rt (userMessage e rt (body req)) hfOut"
    by blast
  then have "submitted (handler e agents req) = [responseMessage rt (userMessage e rt (body req)) hfOut]"
    by (simp add: submitted_background)
  moreover have "compose_text hfOut = Some (''emoted '' @ em)"
    using assms(2) by (simp add: compose_text_def Let_def split: option.splits)
  ultimately show ?thesis
    by (simp add: responseMessage_def contentObj_def)
qed

theorem emote_overwrites_witness:
  "map (content_text \<circ> content)
     (submitted (handler (example_env (GenObject (js_of_hfOut scenarioA_decision)) True)
        (registerAgent [] eliza) scenarioA_request)) = [Some ''emoted wave'']"
proof -
  have d: "decides (example_env (GenObject (js_of_hfOut scenarioA_decision)) True)
             (registerAgent [] eliza) scenarioA_request eliza scenarioA_decision"
    by (rule example_decides) (simp_all add: scenarioA_request_simps)
  have em: "emote scenarioA_decision = Some ''wave''"
    by (simp add: scenarioA_decision_def)
  from emote_overwrites [OF d em] show ?thesis
    by simp
qed

section \<open>An empty list of actions\<close>

text \<open>
  Claim C10. When the validated decision's \<open>actions\<close> is the empty sequence, the
  outgoing record has no action tag and nothing is dispatched; apart from the response,
  which echoes the decision, the turn has the very effects of the turn in which the
  backend returns the same decision with \<open>actions\<close> null.
\<close>

theorem empty_actions:
  assumes "decides e agents req rt hfOut" and "actions hfOut = Some []"
    and "decides (e\<lparr>generateObject := g\<rparr>) agents req rt (hfOut\<lparr>actions := None\<rparr>)"
  shows "action (content (responseMessage rt (userMessage e rt (body req)) hfOut)) = None \<and>
         dispatched (handler e agents req) = [] \<and>
         side_effects (handler e agents req) =
           side_effects (handler (e\<lparr>generateObject := g\<rparr>) agents req)"
proof -
  let ?e' = "e\<lparr>generateObject := g\<rparr>"
  let ?um = "userMessage e rt (body req)"
  from decides_log [OF assms(1)] obtain ej tj where
    log: "handler e agents req =
       ComposeState ?um # GenerateObject ej tj (createHyperfyOutSchema (body req)) #
       background e rt ?um hfOut"
    by blast
  from decides_log [OF assms(3)] obtain ej' tj' where
    log': "handler ?e' agents req =
       ComposeState (userMessage ?e' rt (body req)) #
       GenerateObject ej' tj' (createHyperfyOutSchema (body req)) #
       background ?e' rt (userMessage ?e' rt (body req)) (hfOut\<lparr>actions := None\<rparr>)"
    by blast
  have um: "userMessage ?e' rt (body req) = ?um"
    by (simp add: userMessage_def)
  have inc: "incoming ?e' rt ?um = incoming e rt ?um"
    by (simp add: incoming_def)
  have joined: "ej' = ej" "tj' = tj"
    using log log' assms(1,3)
    by (auto simp: handler_def decides_def vocab_join_def split: option.splits gen_result.splits)
  have tag: "action_tag hfOut = None" "action_tag (hfOut\<lparr>actions := None\<rparr>) = None"
    using assms(2) by (simp_all add: action_tag_def)
  have "contentObj (hfOut\<lparr>actions := None\<rparr>) = contentObj hfOut"
    by (simp add: contentObj_def tag compose_text_actions)
  then have rm: "responseMessage rt ?um (hfOut\<lparr>actions := None\<rparr>) = responseMessage rt ?um hfOut"
    by (simp add: responseMessage_def)
  show ?thesis
    by (simp add: log log' um inc joined rm background_events tag truthy_def)
       (simp add: responseMessage_def contentObj_def tag)
qed

theorem empty_actions_witness:
  "action (content (responseMessage eliza
      (userMessage (example_env (GenObject (js_of_hfOut no_actions)) True) eliza
         (body scenarioA_request)) no_actions)) = None \<and>
   dispatched (handler (example_env (GenObject (js_of_hfOut no_actions)) True)
      (registerAgent [] eliza) scenarioA_request) = [] \<and>
   side_effects (handler (example_env (GenObject (js_of_hfOut no_actions)) True)
      (registerAgent [] eliza) scenarioA_request) =
   side_effects (handler
      (example_env (GenObject (js_of_hfOut (no_actions\<lparr>actions := None\<rparr>))) True)
      (registerAgent [] eliza) scenarioA_request)"
proof -
  let ?g = "GenObject (js_of_hfOut (no_actions\<lparr>actions := None\<rparr>))"
  have d: "decides (example_env (GenObject (js_of_hfOut no_actions)) True) (registerAgent [] eliza)
             scenarioA_request eliza no_actions"
    by (rule example_decides) (simp_all add: scenarioA_request_simps)
  have a: "actions no_actions = Some []"
    by (simp add: no_actions_def)
  have "decides (example_env ?g True) (registerAgent [] eliza)
             scenarioA_request eliza (no_actions\<lparr>actions := None\<rparr>)"
    by (rule example_decides) (simp_all add: scenarioA_request_simps)
  then have d': "decides ((example_env (GenObject (js_of_hfOut no_actions)) True)\<lparr>generateObject := ?g\<rparr>)
             (registerAgent [] eliza) scenarioA_request eliza (no_actions\<lparr>actions := None\<rparr>)"
    by (simp only: example_update)
  from empty_actions [OF d a d'] show ?thesis
    by (simp only: example_update)
qed

end
